theory Spec2Isabelle
  imports Main
begin

section \<open>Python strings\<close>

text \<open>
  A Python \<open>str\<close> is modelled as a \<open>string\<close> whose characters stand for the code points
  0 to 255. The character classes below are those of Python 3 on that range: \<open>isspace\<close> is
  what \<open>str.strip()\<close> removes and what \<open>\s\<close> matches, \<open>isword\<close> is what \<open>\w\<close> matches,
  \<open>isdecimal\<close> is what \<open>\d\<close> matches. Text with code points above 255 is outside the model.
\<close>

definition NL :: char where
  "NL = CHR 0x0A"

definition isspace :: "char \<Rightarrow> bool" where
  "isspace ch = (of_char ch \<in> {9, 10, 11, 12, 13, 28, 29, 30, 31, 32, 133, 160 :: nat})"

definition isdecimal :: "char \<Rightarrow> bool" where
  "isdecimal ch = (let n = of_char ch :: nat in 48 \<le> n \<and> n \<le> 57)"

definition isword :: "char \<Rightarrow> bool" where
  "isword ch = (let n = of_char ch :: nat in
     (48 \<le> n \<and> n \<le> 57) \<or> (65 \<le> n \<and> n \<le> 90) \<or> n = 95 \<or> (97 \<le> n \<and> n \<le> 122) \<or>
     n \<in> {170, 178, 179, 181, 185, 186, 188, 189, 190} \<or>
     (192 \<le> n \<and> n \<le> 214) \<or> (216 \<le> n \<and> n \<le> 246) \<or> (248 \<le> n \<and> n \<le> 255))"

definition lower_chr :: "char \<Rightarrow> char" where
  "lower_chr ch = (let n = of_char ch :: nat in
     if (65 \<le> n \<and> n \<le> 90) \<or> (192 \<le> n \<and> n \<le> 214) \<or> (216 \<le> n \<and> n \<le> 222)
     then char_of (n + 32) else ch)"

text \<open>
  Upper-casing of one character. The upper-case forms of the micro sign (181) and of y with
  diaeresis (255) lie above code point 255; the model leaves these two characters unchanged.
\<close>

definition upper_chr :: "char \<Rightarrow> char" where
  "upper_chr ch = (let n = of_char ch :: nat in
     if (97 \<le> n \<and> n \<le> 122) \<or> (224 \<le> n \<and> n \<le> 246) \<or> (248 \<le> n \<and> n \<le> 254)
     then char_of (n - 32) else ch)"

definition lower :: "string \<Rightarrow> string" where
  "lower s = map lower_chr s"

text \<open>
  \<open>str.capitalize()\<close>: the first character in title case (sharp s, 223, becomes \<open>Ss\<close>),
  the rest in lower case.
\<close>

fun capitalize :: "string \<Rightarrow> string" where
  "capitalize [] = []"
| "capitalize (ch # rest) =
     (if ch = CHR 0xDF then ''Ss'' else [upper_chr ch]) @ map lower_chr rest"

definition strip :: "string \<Rightarrow> string" where
  "strip s = rev (dropWhile isspace (rev (dropWhile isspace s)))"

text \<open>\<open>s.split(sep)\<close> for a separator of one character: never the empty list.\<close>

fun split :: "char \<Rightarrow> string \<Rightarrow> string list" where
  "split sep [] = [[]]"
| "split sep (ch # rest) =
     (if ch = sep then [] # split sep rest
      else (case split sep rest of [] \<Rightarrow> [[ch]] | piece # pieces \<Rightarrow> (ch # piece) # pieces))"

fun join :: "string \<Rightarrow> string list \<Rightarrow> string" where
  "join sep [] = []"
| "join sep [x] = x"
| "join sep (x # y # ys) = x @ sep @ join sep (y # ys)"

datatype error = ValueError | TypeError | AttributeError | IndexError

text \<open>
  \<open>int(s)\<close> on a string: surrounding whitespace is dropped, one sign is allowed, and the
  digits may be grouped by single underscores; anything else raises \<open>ValueError\<close>. Python's
  integers are unbounded, so the value is an \<open>int\<close>. CPython refuses to convert a decimal
  literal of more than \<open>sys.int_info.default_max_str_digits\<close> = 4300 digits and raises
  \<open>ValueError\<close> for it as well; the count is that of the digit characters, leading zeros
  included, sign, underscores and whitespace excluded. The parser never changes that limit.
\<close>

definition digits_value :: "string \<Rightarrow> nat" where
  "digits_value ds = foldl (\<lambda>acc ch. 10 * acc + (of_char ch - 48)) 0 ds"

definition max_str_digits :: nat where
  "max_str_digits = 4300"

definition py_int :: "string \<Rightarrow> error + int" where
  "py_int s =
     (let t = strip s;
          neg = (t \<noteq> [] \<and> hd t = CHR ''-'');
          body = (if t \<noteq> [] \<and> (hd t = CHR ''-'' \<or> hd t = CHR ''+'') then tl t else t);
          groups = split (CHR ''_'') body
      in if (\<forall>g \<in> set groups. g \<noteq> [] \<and> (\<forall>ch \<in> set g. isdecimal ch)) \<and>
            length (concat groups) \<le> max_str_digits
         then Inr ((if neg then - 1 else 1) * int (digits_value (concat groups)))
         else Inl ValueError)"

section \<open>Regular expressions\<close>

text \<open>
  The six patterns of \<open>UserStoryParser.__init__\<close> use literals, \<open>.\<close>, \<open>\s\<close>, \<open>\w\<close>, \<open>\d\<close>, \<open>$\<close>,
  alternation, greedy and lazy repetition, and capture groups. \<open>re\<close>'s matcher is a
  backtracking one: it tries the alternatives of a pattern in a fixed order and takes the
  first that lets the rest of the pattern match. \<open>m r s c k\<close> matches \<open>r\<close> at the front of
  the remaining text \<open>s\<close> with the groups \<open>c\<close> captured so far, and hands what is left to the
  continuation \<open>k\<close>, the rest of the pattern; \<open>None\<close> is failure and makes the caller try
  its next alternative.
\<close>

datatype re =
    Atom "char \<Rightarrow> bool"
  | Eos
  | Eps
  | Seq re re
  | Alt re re
  | Star re
  | LazyStar re
  | Group nat re

type_synonym caps = "nat \<rightharpoonup> string"

function m :: "re \<Rightarrow> string \<Rightarrow> caps \<Rightarrow> (string \<Rightarrow> caps \<Rightarrow> 'a option) \<Rightarrow> 'a option" where
  "m (Atom p) s c k = (case s of [] \<Rightarrow> None | x # xs \<Rightarrow> if p x then k xs c else None)"
| "m Eos s c k = (if s = [] \<or> s = [NL] then k s c else None)"
| "m Eps s c k = k s c"
| "m (Seq r1 r2) s c k = m r1 s c (\<lambda>s' c'. m r2 s' c' k)"
| "m (Alt r1 r2) s c k = (case m r1 s c k of Some x \<Rightarrow> Some x | None \<Rightarrow> m r2 s c k)"
| "m (Star r) s c k =
     (case m r s c (\<lambda>s' c'. if length s' < length s then m (Star r) s' c' k else None) of
        Some x \<Rightarrow> Some x
      | None \<Rightarrow> k s c)"
| "m (LazyStar r) s c k =
     (case k s c of
        Some x \<Rightarrow> Some x
      | None \<Rightarrow> m r s c (\<lambda>s' c'. if length s' < length s then m (LazyStar r) s' c' k else None))"
| "m (Group n r) s c k = m r s c (\<lambda>s' c'. k s' (c'(n \<mapsto> take (length s - length s') s)))"
  by pat_completeness auto
termination
  by (relation "measures [\<lambda>(r, s, c, k). size r, \<lambda>(r, s, c, k). length s]") auto

text \<open>\<open>r+\<close>, \<open>r+?\<close> and \<open>r?\<close>.\<close>

definition Plus :: "re \<Rightarrow> re" where
  "Plus r = Seq r (Star r)"

definition LazyPlus :: "re \<Rightarrow> re" where
  "LazyPlus r = Seq r (LazyStar r)"

definition Opt :: "re \<Rightarrow> re" where
  "Opt r = Alt r Eps"

fun seqs :: "re list \<Rightarrow> re" where
  "seqs [] = Eps"
| "seqs [r] = r"
| "seqs (r # rs) = Seq r (seqs rs)"

text \<open>
  Every search of the parser passes \<open>re.IGNORECASE\<close>: a literal character of a pattern
  matches a character of the text with the same lower-case form.
\<close>

definition ci :: "char \<Rightarrow> char \<Rightarrow> bool" where
  "ci p ch = (lower_chr ch = lower_chr p)"

definition lit :: "string \<Rightarrow> re" where
  "lit w = seqs (map (\<lambda>p. Atom (ci p)) w)"

text \<open>\<open>.\<close> without and with \<open>re.DOTALL\<close>.\<close>

definition dot :: "char \<Rightarrow> bool" where
  "dot ch = (ch \<noteq> NL)"

definition dotall :: "char \<Rightarrow> bool" where
  "dotall ch = True"

text \<open>
  A match at the front of \<open>s\<close>: what is left of the text after it, and its groups.
  \<open>re.search\<close> tries every start from left to right, the end of the text included.
\<close>

definition match_at :: "re \<Rightarrow> string \<Rightarrow> (string \<times> caps) option" where
  "match_at r s = m r s Map.empty (\<lambda>s' c'. Some (s', c'))"

fun search :: "re \<Rightarrow> string \<Rightarrow> caps option" where
  "search r [] = map_option snd (match_at r [])"
| "search r (x # xs) =
     (case match_at r (x # xs) of Some (s', c) \<Rightarrow> Some c | None \<Rightarrow> search r xs)"

text \<open>
  \<open>re.findall\<close> for a pattern with one group: group 1 of every match, scanning from left
  to right, each search starting where the last match ended. (After an empty match the
  scan moves on by one character; the pattern it is used with matches no empty text.)
\<close>

function findall :: "re \<Rightarrow> string \<Rightarrow> string list" where
  "findall r s =
     (case match_at r s of
        Some (s', c) \<Rightarrow>
          (case c 1 of Some g \<Rightarrow> g | None \<Rightarrow> []) #
          (if length s' < length s then findall r s'
           else (case s of [] \<Rightarrow> [] | _ # t \<Rightarrow> findall r t))
      | None \<Rightarrow> (case s of [] \<Rightarrow> [] | _ # t \<Rightarrow> findall r t))"
  by pat_completeness auto
termination
  by (relation "measure (\<lambda>(r, s). length s)") auto

subsection \<open>The patterns of \<open>story_patterns\<close>\<close>

text \<open>\<^verbatim>\<open>As a (.+?), I want (.+?) so that (.+?)(?:\.|$)\<close>\<close>

definition gherkin :: re where
  "gherkin = seqs [lit ''As a '', Group 1 (LazyPlus (Atom dot)), lit '', I want '',
     Group 2 (LazyPlus (Atom dot)), lit '' so that '', Group 3 (LazyPlus (Atom dot)),
     Alt (Atom (\<lambda>ch. ch = CHR ''.'')) Eos]"

text \<open>\<^verbatim>\<open>(?:Given|When|Then|And)\s+(.+?)(?:\n|$)\<close>\<close>

definition acceptance :: re where
  "acceptance = seqs [Alt (lit ''Given'') (Alt (lit ''When'') (Alt (lit ''Then'') (lit ''And''))),
     Plus (Atom isspace), Group 1 (LazyPlus (Atom dot)), Alt (Atom (\<lambda>ch. ch = NL)) Eos]"

text \<open>\<^verbatim>\<open>(?:Acceptance Criteria?:|AC:)\s*\n?((?:.+\n?)*)\<close>, searched with \<open>re.DOTALL\<close>\<close>

definition criteria :: re where
  "criteria = seqs [Alt (seqs [lit ''Acceptance Criteri'', Opt (lit ''a''), lit '':'']) (lit ''AC:''),
     Star (Atom isspace), Opt (Atom (\<lambda>ch. ch = NL)),
     Group 1 (Star (Seq (Plus (Atom dotall)) (Opt (Atom (\<lambda>ch. ch = NL)))))]"

text \<open>\<^verbatim>\<open>(?:Priority:|Prio:)\s*(\w+)\<close>\<close>

definition priority_re :: re where
  "priority_re = seqs [Alt (lit ''Priority:'') (lit ''Prio:''), Star (Atom isspace),
     Group 1 (Plus (Atom isword))]"

text \<open>\<^verbatim>\<open>(?:Story Points?:|Points?:|SP:)\s*(\d+)\<close>\<close>

definition points :: re where
  "points = seqs [Alt (seqs [lit ''Story Point'', Opt (lit ''s''), lit '':''])
       (Alt (seqs [lit ''Point'', Opt (lit ''s''), lit '':'']) (lit ''SP:'')),
     Star (Atom isspace), Group 1 (Plus (Atom isdecimal))]"

section \<open>The story parser\<close>

record user_story =
  title :: string
  description :: string
  acceptance_criteria :: "string list"
  priority :: string
  story_points :: "int option"

text \<open>
  \<open>_split_into_stories\<close>: the loop over the lines carries \<open>current_story\<close> and \<open>stories\<close>.
\<close>

fun split_loop :: "string list \<Rightarrow> string list \<Rightarrow> string list \<Rightarrow> string list \<times> string list" where
  "split_loop [] current_story stories = (current_story, stories)"
| "split_loop (line # lines) current_story stories =
     (let line' = strip line in
      if line' = [] then
        (if current_story \<noteq> []
         then split_loop lines [] (stories @ [join [NL] current_story])
         else split_loop lines current_story stories)
      else split_loop lines (current_story @ [line']) stories)"

definition split_into_stories :: "string \<Rightarrow> string list" where
  "split_into_stories text =
     (let lines = split NL (strip text);
          (current_story, stories) = split_loop lines [] []
      in if current_story \<noteq> [] then stories @ [join [NL] current_story] else stories)"

text \<open>
  \<open>_parse_single_story\<close>. A group that took no part in a match reads as Python's \<open>None\<close>:
  an f-string prints it as \<open>None\<close>, \<open>None.split\<close> and \<open>None.capitalize\<close> raise
  \<open>AttributeError\<close>, \<open>int(None)\<close> raises \<open>TypeError\<close>, and \<open>lines[0]\<close> of an empty list raises
  \<open>IndexError\<close>. The result is \<open>Inr None\<close> where the source returns \<open>None\<close>.
\<close>

definition fmt :: "string option \<Rightarrow> string" where
  "fmt g = (case g of None \<Rightarrow> ''None'' | Some v \<Rightarrow> v)"

definition parse_title :: "string \<Rightarrow> string \<times> string" where
  "parse_title text =
     (case search gherkin text of
        Some g \<Rightarrow>
          (''User Story: '' @ fmt (g 2),
           ''As a '' @ fmt (g 1) @ '', I want '' @ fmt (g 2) @ '' so that '' @ fmt (g 3))
      | None \<Rightarrow>
          (case split NL text of
             [] \<Rightarrow> ([], [])
           | l # _ \<Rightarrow> (if length l > 100 then take 100 l @ ''...'' else l, text)))"

definition parse_criteria :: "string \<Rightarrow> error + string list" where
  "parse_criteria text =
     (case search criteria text of
        None \<Rightarrow> Inr []
      | Some g \<Rightarrow>
          (case g 1 of
             None \<Rightarrow> Inl AttributeError
           | Some criteria_text \<Rightarrow>
               Inr (map strip (filter (\<lambda>ac. strip ac \<noteq> []) (split NL criteria_text)))))"

definition parse_priority :: "string \<Rightarrow> error + string" where
  "parse_priority text =
     (case search priority_re text of
        None \<Rightarrow> Inr ''Medium''
      | Some g \<Rightarrow> (case g 1 of None \<Rightarrow> Inl AttributeError | Some w \<Rightarrow> Inr (capitalize w)))"

definition parse_points :: "string \<Rightarrow> error + int option" where
  "parse_points text =
     (case search points text of
        None \<Rightarrow> Inr None
      | Some g \<Rightarrow>
          (case g 1 of
             None \<Rightarrow> Inl TypeError
           | Some d \<Rightarrow> (case py_int d of Inl e \<Rightarrow> Inl e | Inr n \<Rightarrow> Inr (Some n))))"

definition parse_single_story :: "string \<Rightarrow> error + user_story option" where
  "parse_single_story text =
     (let (title', description') = parse_title text in
      case parse_criteria text of
        Inl e \<Rightarrow> Inl e
      | Inr labelled \<Rightarrow>
          (let acceptance_criteria' = labelled @ findall acceptance text in
           case parse_priority text of
             Inl e \<Rightarrow> Inl e
           | Inr priority' \<Rightarrow>
               (case parse_points text of
                  Inl e \<Rightarrow> Inl e
                | Inr story_points' \<Rightarrow>
                    if title' \<noteq> [] \<and> description' \<noteq> [] then
                      Inr (Some \<lparr>title = title', description = description',
                        acceptance_criteria = acceptance_criteria', priority = priority',
                        story_points = story_points'\<rparr>)
                    else Inr None)))"

text \<open>
  \<open>parse_user_stories\<close>: the loop over the blocks appends each story that was parsed; an
  exception in a block ends the call.
\<close>

fun parse_loop :: "string list \<Rightarrow> user_story list \<Rightarrow> error + user_story list" where
  "parse_loop [] stories = Inr stories"
| "parse_loop (block # blocks) stories =
     (case parse_single_story block of
        Inl e \<Rightarrow> Inl e
      | Inr None \<Rightarrow> parse_loop blocks stories
      | Inr (Some story) \<Rightarrow> parse_loop blocks (stories @ [story]))"

definition parse_user_stories :: "string \<Rightarrow> error + user_story list" where
  "parse_user_stories text = parse_loop (split_into_stories text) []"

section \<open>The document generator\<close>

record prd_section =
  section_title :: string
  content :: string

text \<open>\<open>project_info.get(key, default)\<close> on a dictionary of strings.\<close>

definition dict_get :: "(string \<rightharpoonup> string) \<Rightarrow> string \<Rightarrow> string \<Rightarrow> string" where
  "dict_get d key dflt = (case d key of None \<Rightarrow> dflt | Some v \<Rightarrow> v)"

text \<open>
  \<open>str(n)\<close> of an integer, and the format \<open>{i:03d}\<close> of a loop index. (CPython's limit
  of 4300 digits applies to \<open>str\<close> of an integer too; every integer that \<open>py_int\<close> returns is
  within it, and \<open>str_int\<close> is the conversion within that limit.)
\<close>

fun str_nat :: "nat \<Rightarrow> string" where
  "str_nat n = (if n < 10 then [char_of (48 + n)] else str_nat (n div 10) @ [char_of (48 + n mod 10)])"

definition str_int :: "int \<Rightarrow> string" where
  "str_int n = (if n < 0 then ''-'' @ str_nat (nat (- n)) else str_nat (nat n))"

definition pad3 :: "nat \<Rightarrow> string" where
  "pad3 i = replicate (3 - length (str_nat i)) (CHR ''0'') @ str_nat i"

text \<open>
  The section texts are triple-quoted f-strings, stripped: a list of lines joined by
  newlines, the first line empty and the last one the indentation of the closing quotes.
  \<open>today\<close> is the current date as \<open>strftime\<close> prints it, the default of the \<open>date\<close> key.
\<close>

definition generate_project_info :: "string \<Rightarrow> (string \<rightharpoonup> string) \<Rightarrow> string" where
  "generate_project_info today project_info =
     strip (join [NL]
       [[],
        ''Project Title: '' @ dict_get project_info ''title'' ''Untitled Project'',
        ''Author: '' @ dict_get project_info ''author'' ''Unknown'',
        ''Date: '' @ dict_get project_info ''date'' today,
        ''Version: '' @ dict_get project_info ''version'' ''1.0'',
        ''Status: '' @ dict_get project_info ''status'' ''Draft'',
        ''Target Release: '' @ dict_get project_info ''target_release'' ''TBD'',
        ''        ''])"

definition generate_executive_summary :: "user_story list \<Rightarrow> (string \<rightharpoonup> string) \<Rightarrow> string" where
  "generate_executive_summary user_stories project_info =
     (let total_stories = length user_stories;
          high_priority = length (filter (\<lambda>s. lower (priority s) = ''high'') user_stories)
      in strip (join [NL]
       [[],
        ''This Product Requirements Document outlines the requirements for '' @ dict_get project_info ''title'' ''the project'' @ ''.'',
        [],
        ''The product addresses key user needs through '' @
          str_nat total_stories @
          '' user stories, with '' @
          str_nat high_priority @
          '' high-priority features identified. This document serves as the primary reference for development teams, stakeholders, and project managers throughout the product development lifecycle.'',
        [],
        ''Key objectives:'',
        ''- Deliver user-centered features based on identified user stories'',
        ''- Ensure clear requirements and acceptance criteria'',
        ''- Provide measurable success metrics'',
        ''- Establish development timeline and constraints'',
        ''        '']))"

definition generate_product_overview :: "(string \<rightharpoonup> string) \<Rightarrow> string" where
  "generate_product_overview project_info =
     strip (join [NL]
       [[],
        ''Product Vision: '' @ dict_get project_info ''vision'' ''To be defined based on user requirements'',
        [],
        ''Target Users: Based on the user stories, the primary users include various personas who require the functionality described in the requirements.'',
        [],
        ''Core Value Proposition: The product will deliver value by addressing specific user needs as outlined in the user stories section.'',
        [],
        ''Scope: This PRD covers the features and functionality derived from the provided user stories and their associated acceptance criteria.'',
        ''        ''])"

text \<open>
  The three sections with one entry for each story: \<open>enumerate(user_stories, 1)\<close> is the
  loop counter \<open>i\<close>, and each iteration appends its text to \<open>content\<close>.
  \<open>if story.story_points\<close> and \<open>if story.acceptance_criteria\<close> test truthiness: an
  integer that is not zero, a list that is not empty.
\<close>

definition us_entry :: "nat \<Rightarrow> user_story \<Rightarrow> string" where
  "us_entry i story =
     ''US'' @ pad3 i @ '': '' @ title story @ [NL] @
     ''Description: '' @ description story @ [NL] @
     ''Priority: '' @ priority story @ [NL] @
     (case story_points story of
        None \<Rightarrow> []
      | Some n \<Rightarrow> if n \<noteq> 0 then ''Story Points: '' @ str_int n @ [NL] else []) @
     [NL]"

fun user_stories_loop :: "nat \<Rightarrow> user_story list \<Rightarrow> string \<Rightarrow> string" where
  "user_stories_loop i [] content' = content'"
| "user_stories_loop i (story # rest) content' =
     user_stories_loop (i + 1) rest (content' @ us_entry i story)"

definition generate_user_stories_section :: "user_story list \<Rightarrow> string" where
  "generate_user_stories_section user_stories =
     strip (user_stories_loop 1 user_stories
       (''The following user stories define the core requirements for this product:'' @ [NL, NL]))"

definition fr_entry :: "nat \<Rightarrow> user_story \<Rightarrow> string" where
  "fr_entry i story =
     ''FR'' @ pad3 i @ '': '' @ title story @ [NL] @
     ''The system shall implement functionality to: '' @ description story @ [NL] @
     ''Priority Level: '' @ priority story @ [NL, NL]"

fun functional_requirements_loop :: "nat \<Rightarrow> user_story list \<Rightarrow> string \<Rightarrow> string" where
  "functional_requirements_loop i [] content' = content'"
| "functional_requirements_loop i (story # rest) content' =
     functional_requirements_loop (i + 1) rest (content' @ fr_entry i story)"

definition generate_functional_requirements :: "user_story list \<Rightarrow> string" where
  "generate_functional_requirements user_stories =
     strip (functional_requirements_loop 1 user_stories
       (''Based on the user stories, the following functional requirements have been identified:'' @
        [NL, NL]))"

fun criteria_loop :: "nat \<Rightarrow> nat \<Rightarrow> string list \<Rightarrow> string \<Rightarrow> string" where
  "criteria_loop i j [] content' = content'"
| "criteria_loop i j (criterion # rest) content' =
     criteria_loop i (j + 1) rest
       (content' @ ''  AC'' @ pad3 i @ ''.'' @ str_nat j @ '': '' @ criterion @ [NL])"

definition ac_entry :: "nat \<Rightarrow> user_story \<Rightarrow> string" where
  "ac_entry i story =
     (if acceptance_criteria story \<noteq> [] then
        criteria_loop i 1 (acceptance_criteria story)
          (''US'' @ pad3 i @ '' - '' @ title story @ '':'' @ [NL]) @ [NL]
      else [])"

fun acceptance_criteria_loop :: "nat \<Rightarrow> user_story list \<Rightarrow> string \<Rightarrow> string" where
  "acceptance_criteria_loop i [] content' = content'"
| "acceptance_criteria_loop i (story # rest) content' =
     acceptance_criteria_loop (i + 1) rest (content' @ ac_entry i story)"

definition generate_acceptance_criteria :: "user_story list \<Rightarrow> string" where
  "generate_acceptance_criteria user_stories =
     strip (acceptance_criteria_loop 1 user_stories
       (''Acceptance criteria for each user story:'' @ [NL, NL]))"

definition generate_assumptions :: "string" where
  "generate_assumptions =
     strip (join [NL]
       [[],
        ''The following assumptions are made for this product development:'',
        [],
        ''1. Technical infrastructure and development resources are available'',
        ''2. User stories represent validated user needs'',
        ''3. Acceptance criteria are complete and testable'',
        ''4. Dependencies with external systems are manageable'',
        ''5. Timeline estimates are based on standard development practices'',
        [],
        ''These assumptions should be validated and updated as the project progresses.'',
        ''        ''])"

definition generate_success_metrics :: "string" where
  "generate_success_metrics =
     strip (join [NL]
       [[],
        ''Success will be measured using the following metrics:'',
        [],
        ''1. Feature Completion Rate: Percentage of user stories successfully implemented'',
        ''2. Acceptance Criteria Pass Rate: Percentage of acceptance criteria met'',
        ''3. User Satisfaction: To be measured through user feedback and testing'',
        ''4. Performance Metrics: Response time, uptime, and system reliability'',
        ''5. Adoption Metrics: User engagement and feature utilization'',
        [],
        ''Specific targets and measurement methods should be defined during the planning phase.'',
        ''        ''])"

definition generate_prd :: "string \<Rightarrow> user_story list \<Rightarrow> (string \<rightharpoonup> string) \<Rightarrow> prd_section list" where
  "generate_prd today user_stories project_info =
     [\<lparr>section_title = ''Project Information'',
        content = generate_project_info today project_info\<rparr>,
      \<lparr>section_title = ''Executive Summary'',
        content = generate_executive_summary user_stories project_info\<rparr>,
      \<lparr>section_title = ''Product Overview'',
        content = generate_product_overview project_info\<rparr>,
      \<lparr>section_title = ''User Stories and Requirements'',
        content = generate_user_stories_section user_stories\<rparr>,
      \<lparr>section_title = ''Functional Requirements'',
        content = generate_functional_requirements user_stories\<rparr>,
      \<lparr>section_title = ''Acceptance Criteria'',
        content = generate_acceptance_criteria user_stories\<rparr>,
      \<lparr>section_title = ''Assumptions and Constraints'', content = generate_assumptions\<rparr>,
      \<lparr>section_title = ''Success Metrics'', content = generate_success_metrics\<rparr>]"

section \<open>Auxiliary definitions\<close>

text \<open>
  A label of a pattern at the front of a text, read without regard to case.
\<close>

fun ci_prefix :: "string \<Rightarrow> string \<Rightarrow> bool" where
  "ci_prefix [] s = True"
| "ci_prefix (p # w) [] = False"
| "ci_prefix (p # w) (x # xs) = (if ci p x then ci_prefix w xs else False)"


section \<open>Evaluating the model\<close>

text \<open>
  Facts that let the simplifier run the definitions on a concrete text: characters are
  compared by their code points, and a case-insensitive literal is compared with the two
  case forms of the pattern's character.
\<close>

lemma chr_eq_code: "(a = b) = ((of_char a :: nat) = of_char b)"
  by simp

lemma lower_chr_code:
  "(of_char (lower_chr ch) :: nat) =
     (let n = of_char ch in
      if (65 \<le> n \<and> n \<le> 90) \<or> (192 \<le> n \<and> n \<le> 214) \<or> (216 \<le> n \<and> n \<le> 222)
      then n + 32 else n)"
  by (auto simp: lower_chr_def Let_def)

lemma upper_chr_code:
  "(of_char (upper_chr ch) :: nat) =
     (let n = of_char ch in
      if (97 \<le> n \<and> n \<le> 122) \<or> (224 \<le> n \<and> n \<le> 246) \<or> (248 \<le> n \<and> n \<le> 254)
      then n - 32 else n)"
  by (auto simp: upper_chr_def Let_def)

lemma ci_eq: "ci p = (\<lambda>ch. ch = lower_chr p \<or> ch = upper_chr p)"
proof (rule ext)
  fix ch
  show "ci p ch = (ch = lower_chr p \<or> ch = upper_chr p)"
    unfolding ci_def chr_eq_code[of "lower_chr ch"] chr_eq_code[of ch]
      lower_chr_code upper_chr_code Let_def
    by (auto split: if_splits)
qed

declare m.simps [simp del]
declare findall.simps [simp del]
declare str_nat.simps [simp del]

lemmas m_eval = m.simps[where s = "[]"] m.simps[where s = "x # xs" for x xs]

lemmas findall_eval = findall.simps[where s = "[]"] findall.simps[where s = "x # xs" for x xs]

lemmas chr_eval = isspace_def isdecimal_def isword_def lower_chr_def upper_chr_def NL_def
  ci_eq dot_def dotall_def char_of_def bit_Suc_0_iff

lemmas re_eval = gherkin_def acceptance_def criteria_def priority_re_def points_def lit_def
  Plus_def LazyPlus_def Opt_def match_at_def m_eval findall_eval

lemmas parse_eval = parse_user_stories_def split_into_stories_def strip_def
  parse_single_story_def parse_title_def parse_criteria_def parse_priority_def
  parse_points_def fmt_def py_int_def digits_value_def max_str_digits_def

lemma replicate_numeral_eval: "replicate (numeral k) x = x # replicate (pred_numeral k) x"
  by (simp add: numeral_eq_Suc)

lemma Suc_Suc_0: "Suc (Suc 0) = 2"
  by simp

lemmas num_eval = Suc_Suc_0 str_nat.simps[of "numeral n" for n] str_nat.simps[of 0] str_nat.simps[of 1]
  str_nat.simps[of "Suc 0"] pad3_def str_int_def char_of_def bit_Suc_0_iff
  replicate_numeral_eval

section \<open>Extraction examples\<close>

lemma gherkin_example:
  "parse_user_stories ''As a tester, I want to run suites so that bugs are caught early.'' =
     Inr [\<lparr>title = ''User Story: to run suites'',
       description = ''As a tester, I want to run suites so that bugs are caught early'',
       acceptance_criteria = [], priority = ''Medium'', story_points = None\<rparr>]"
  by (simp add: chr_eval re_eval parse_eval)

text \<open>
  Claim C1, as stated, fails: for the text
  \<open>As a tester, I want to run suites so that bugs are caught early.\<close> the titles of the
  extracted records are not the single title \<open>User Story: run suites\<close>.
\<close>

theorem C1_counterexample:
  "map_sum id (map title)
     (parse_user_stories ''As a tester, I want to run suites so that bugs are caught early.'') \<noteq>
   Inr [''User Story: run suites'']"
  by (simp add: gherkin_example)

text \<open>
  Claim C1, amended: for that text \<open>parse_user_stories\<close> returns exactly one record; its
  title is \<open>User Story: to run suites\<close> (the action group captures everything between
  \<open>I want\<close> and \<open>so that\<close>, the word \<open>to\<close> included) and its description is
  \<open>As a tester, I want to run suites so that bugs are caught early\<close>, without the final
  period.
\<close>

theorem C1_gherkin_example:
  "map_sum id (map (\<lambda>r. (title r, description r)))
     (parse_user_stories ''As a tester, I want to run suites so that bugs are caught early.'') =
   Inr [(''User Story: to run suites'',
         ''As a tester, I want to run suites so that bugs are caught early'')]"
  by (simp add: gherkin_example)

lemma criteria_example:
  "parse_user_stories ''Acceptance Criteria:\<newline>- A\<newline>- B\<newline>Given X'' =
     Inr [\<lparr>title = ''Acceptance Criteria:'',
       description = ''Acceptance Criteria:\<newline>- A\<newline>- B\<newline>Given X'',
       acceptance_criteria = [''- A'', ''- B'', ''Given X'', ''X''],
       priority = ''Medium'', story_points = None\<rparr>]"
  by (simp add: chr_eval re_eval parse_eval)

text \<open>
  Claim C2, as stated, fails: for the block of the four lines \<open>Acceptance Criteria:\<close>,
  \<open>- A\<close>, \<open>- B\<close>, \<open>Given X\<close> the criteria of the extracted record are not
  \<open>- A\<close>, \<open>- B\<close>, \<open>X\<close>.
\<close>

theorem C2_counterexample:
  "map_sum id (map acceptance_criteria)
     (parse_user_stories ''Acceptance Criteria:\<newline>- A\<newline>- B\<newline>Given X'') \<noteq>
   Inr [[''- A'', ''- B'', ''X'']]"
  by (simp add: criteria_example)

text \<open>
  Claim C2, amended: for that block the criteria are \<open>- A\<close>, \<open>- B\<close>, \<open>Given X\<close>, \<open>X\<close>
  in this order. The labelled block runs to the end of the story block, so it keeps the
  line \<open>Given X\<close> whole, bullet markers and keyword retained; the remainder \<open>X\<close> of the
  \<open>Given\<close> line is then appended after the labelled criteria.
\<close>

theorem C2_criteria_example:
  "map_sum id (map acceptance_criteria)
     (parse_user_stories ''Acceptance Criteria:\<newline>- A\<newline>- B\<newline>Given X'') =
   Inr [[''- A'', ''- B'', ''Given X'', ''X'']]"
  by (simp add: criteria_example)

section \<open>The generated sections\<close>

text \<open>
  Claim C4: for every list of stories, every project information and every current date,
  \<open>generate_prd\<close> returns the eight sections Project Information, Executive Summary,
  Product Overview, User Stories and Requirements, Functional Requirements, Acceptance
  Criteria, Assumptions and Constraints, Success Metrics, in this order; and for no stories
  and an empty dictionary the first section shows the defaults \<open>Untitled Project\<close>,
  \<open>Unknown\<close>, \<open>1.0\<close>, \<open>Draft\<close> and \<open>TBD\<close>, with the current date.
\<close>

theorem C4_eight_sections:
  "map section_title (generate_prd today stories project_info) =
     [''Project Information'', ''Executive Summary'', ''Product Overview'',
      ''User Stories and Requirements'', ''Functional Requirements'', ''Acceptance Criteria'',
      ''Assumptions and Constraints'', ''Success Metrics''] \<and>
   length (generate_prd today stories project_info) = 8 \<and>
   map content (take 1 (generate_prd today [] Map.empty)) =
     [''Project Title: Untitled Project\<newline>Author: Unknown\<newline>Date: '' @ today @
      ''\<newline>Version: 1.0\<newline>Status: Draft\<newline>Target Release: TBD'']"
  by (simp add: generate_prd_def generate_project_info_def dict_get_def strip_def
      isspace_def NL_def)

subsection \<open>The loops over the stories\<close>





lemma user_stories_loop_append:
  "user_stories_loop i (xs @ ys) c = user_stories_loop (i + length xs) ys (user_stories_loop i xs c)"
  by (induction xs arbitrary: i c) simp_all

lemma us_entry_zero:
  "us_entry i (s\<lparr>story_points := Some 0\<rparr>) = us_entry i (s\<lparr>story_points := None\<rparr>)"
  by (simp add: us_entry_def)



text \<open>
  Claim C10: a story whose \<open>story_points\<close> is 0 is rendered in the User Stories and
  Requirements section exactly as the same story with \<open>story_points\<close> unset, without a
  \<open>Story Points:\<close> line; such a story is what the block \<open>SP: 0\<close> is parsed to.
\<close>

theorem C10_zero_story_points:
  "generate_user_stories_section (xs @ [s\<lparr>story_points := Some 0\<rparr>] @ ys) =
     generate_user_stories_section (xs @ [s\<lparr>story_points := None\<rparr>] @ ys) \<and>
   parse_user_stories ''SP: 0'' =
     Inr [\<lparr>title = ''SP: 0'', description = ''SP: 0'', acceptance_criteria = [],
       priority = ''Medium'', story_points = Some 0\<rparr>] \<and>
   generate_user_stories_section
     [\<lparr>title = ''SP: 0'', description = ''SP: 0'', acceptance_criteria = [],
       priority = ''Medium'', story_points = Some 0\<rparr>] =
     ''The following user stories define the core requirements for this product:\<newline>\<newline>US001: SP: 0\<newline>Description: SP: 0\<newline>Priority: Medium''"
proof -
  have "generate_user_stories_section (xs @ [s\<lparr>story_points := Some 0\<rparr>] @ ys) =
      generate_user_stories_section (xs @ [s\<lparr>story_points := None\<rparr>] @ ys)"
    by (simp add: generate_user_stories_section_def user_stories_loop_append us_entry_zero)
  moreover have "parse_user_stories ''SP: 0'' =
      Inr [\<lparr>title = ''SP: 0'', description = ''SP: 0'', acceptance_criteria = [],
        priority = ''Medium'', story_points = Some 0\<rparr>]"
    by (simp add: chr_eval re_eval parse_eval)
  moreover have "generate_user_stories_section
      [\<lparr>title = ''SP: 0'', description = ''SP: 0'', acceptance_criteria = [],
        priority = ''Medium'', story_points = Some 0\<rparr>] =
      ''The following user stories define the core requirements for this product:\<newline>\<newline>US001: SP: 0\<newline>Description: SP: 0\<newline>Priority: Medium''"
    by (simp add: generate_user_stories_section_def us_entry_def num_eval strip_def
        isspace_def NL_def)
  ultimately show ?thesis by blast
qed

section \<open>Properties of the matcher\<close>

text \<open>
  Whenever a match succeeds, the continuation was reached; a repetition of one character
  class consumes characters of that class only.
\<close>

lemma m_cont: "m r s c k = Some x \<Longrightarrow> \<exists>s' c'. k s' c' = Some x"
proof (induction r s c k rule: m.induct)
  case (1 p s c k)
  then show ?case by (auto simp: m.simps split: list.splits if_splits)
next
  case (2 s c k)
  then show ?case by (auto simp: m.simps split: if_splits)
next
  case (3 s c k)
  then show ?case by (auto simp: m.simps)
next
  case (4 r1 r2 s c k)
  from 4(3) have "m r1 s c (\<lambda>s' c'. m r2 s' c' k) = Some x" by (simp add: m.simps)
  from 4(2)[OF this] obtain s' c' where "m r2 s' c' k = Some x" by blast
  from 4(1)[OF this] show ?case .
next
  case (5 r1 r2 s c k)
  then show ?case by (auto simp: m.simps split: option.splits)
next
  case (6 r s c k)
  show ?case
  proof (cases "m r s c (\<lambda>s' c'. if length s' < length s then m (Star r) s' c' k else None)")
    case None
    with 6(3) show ?thesis by (auto simp: m.simps(6))
  next
    case (Some y)
    with 6(3) have y: "y = x" by (simp add: m.simps(6))
    from 6(2)[OF Some[unfolded y]] obtain s' c' where
      "(if length s' < length s then m (Star r) s' c' k else None) = Some x" by blast
    then have "length s' < length s" "m (Star r) s' c' k = Some x" by (auto split: if_splits)
    from 6(1)[OF this] show ?thesis .
  qed
next
  case (7 r s c k)
  show ?case
  proof (cases "k s c")
    case (Some y)
    with 7(3) show ?thesis by (auto simp: m.simps(7))
  next
    case None
    with 7(3) have "m r s c (\<lambda>s' c'. if length s' < length s then m (LazyStar r) s' c' k else None) = Some x"
      by (simp add: m.simps(7))
    from 7(2)[OF None this] obtain s' c' where
      "(if length s' < length s then m (LazyStar r) s' c' k else None) = Some x" by blast
    then have "length s' < length s" "m (LazyStar r) s' c' k = Some x" by (auto split: if_splits)
    from 7(1)[OF None this] show ?thesis .
  qed
next
  case (8 n r s c k)
  from 8(2) have "m r s c (\<lambda>s' c'. k s' (c'(n \<mapsto> take (length s - length s') s))) = Some x"
    by (simp add: m.simps)
  from 8(1)[OF this] show ?case by blast
qed

lemma star_atom_sound:
  "m (Star (Atom p)) s c k = Some x \<Longrightarrow>
   \<exists>d s'. s = d @ s' \<and> (\<forall>ch \<in> set d. p ch) \<and> k s' c = Some x"
proof (induction s)
  case Nil
  then show ?case by (auto simp: m.simps(6) m.simps(1))
next
  case (Cons a s)
  show ?case
  proof (cases "p a \<and> m (Star (Atom p)) s c k \<noteq> None")
    case True
    then obtain y where y: "m (Star (Atom p)) s c k = Some y" by blast
    with True Cons.prems have "y = x"
      by (simp add: m.simps(6) m.simps(1))
    with y Cons.IH obtain d s' where "s = d @ s'" "\<forall>ch \<in> set d. p ch" "k s' c = Some x" by blast
    then have "a # s = (a # d) @ s'" "\<forall>ch \<in> set (a # d). p ch" using True by auto
    with \<open>k s' c = Some x\<close> show ?thesis by blast
  next
    case False
    with Cons.prems have "k (a # s) c = Some x"
      by (auto simp: m.simps(6) m.simps(1) split: option.splits if_splits)
    then show ?thesis by fastforce
  qed
qed

lemma plus_atom_sound:
  "m (Plus (Atom p)) s c k = Some x \<Longrightarrow>
   \<exists>d s'. s = d @ s' \<and> d \<noteq> [] \<and> (\<forall>ch \<in> set d. p ch) \<and> k s' c = Some x"
proof -
  assume a: "m (Plus (Atom p)) s c k = Some x"
  then obtain a' s1 where s: "s = a' # s1" and pa: "p a'"
    and st: "m (Star (Atom p)) s1 c k = Some x"
    by (auto simp: Plus_def m.simps(4) m.simps(1) split: list.splits if_splits)
  from star_atom_sound[OF st] obtain d s' where "s1 = d @ s'" "\<forall>ch \<in> set d. p ch" "k s' c = Some x"
    by blast
  with s pa have "s = (a' # d) @ s'" "a' # d \<noteq> []" "\<forall>ch \<in> set (a' # d). p ch" by auto
  with \<open>k s' c = Some x\<close> show ?thesis by blast
qed

lemma group_plus_atom_sound:
  assumes "m (Group n (Plus (Atom p))) s c k = Some x"
  shows "\<exists>d s'. s = d @ s' \<and> d \<noteq> [] \<and> (\<forall>ch \<in> set d. p ch) \<and> k s' (c(n \<mapsto> d)) = Some x"
proof -
  from assms have "m (Plus (Atom p)) s c (\<lambda>s' c'. k s' (c'(n \<mapsto> take (length s - length s') s))) = Some x"
    by (simp add: m.simps)
  from plus_atom_sound[OF this] obtain d s' where d: "s = d @ s'" "d \<noteq> []" "\<forall>ch \<in> set d. p ch"
    and k: "k s' (c(n \<mapsto> take (length s - length s') s)) = Some x" by blast
  from d(1) have "take (length s - length s') s = d" by simp
  with d k show ?thesis by auto
qed

lemma search_Some:
  "search r s = Some g \<Longrightarrow> \<exists>t s'. match_at r t = Some (s', g)"
  by (induction s) (auto split: option.splits)


lemma seq_last: "m (Seq r1 r2) s c k = Some x \<Longrightarrow> \<exists>s' c'. m r2 s' c' k = Some x"
  using m_cont[of r1 s c "\<lambda>s' c'. m r2 s' c' k" x] by (simp add: m.simps(4))

lemma group_sets:
  "m (Group n r) s c (\<lambda>s' c'. Some (s', c')) = Some (t, g) \<Longrightarrow> \<exists>v. g n = Some v"
  using m_cont[of r s c "\<lambda>s' c'. Some (s', c'(n \<mapsto> take (length s - length s') s))" "(t, g)"]
  by (auto simp: m.simps(8))

lemma criteria_group:
  assumes "search criteria text = Some g"
  shows "\<exists>v. g 1 = Some v"
proof -
  from search_Some[OF assms] obtain t s' where "match_at criteria t = Some (s', g)" by blast
  then have "m criteria t Map.empty (\<lambda>s' c'. Some (s', c')) = Some (s', g)"
    by (simp add: match_at_def)
  then obtain s1 c1 s2 c2 s3 c3 where
    "m (Group 1 (Star (Seq (Plus (Atom dotall)) (Opt (Atom (\<lambda>ch. ch = NL))))))
       s3 c3 (\<lambda>s' c'. Some (s', c')) = Some (s', g)"
    unfolding criteria_def seqs.simps by (blast dest: seq_last)
  from group_sets[OF this] show ?thesis .
qed

lemma priority_group:
  assumes "search priority_re text = Some g"
  shows "\<exists>v. g 1 = Some v"
proof -
  from search_Some[OF assms] obtain t s' where "match_at priority_re t = Some (s', g)" by blast
  then have "m priority_re t Map.empty (\<lambda>s' c'. Some (s', c')) = Some (s', g)"
    by (simp add: match_at_def)
  then obtain s3 c3 where
    "m (Group 1 (Plus (Atom isword))) s3 c3 (\<lambda>s' c'. Some (s', c')) = Some (s', g)"
    unfolding priority_re_def seqs.simps by (blast dest: seq_last)
  from group_sets[OF this] show ?thesis .
qed

lemma points_group:
  assumes "search points text = Some g"
  shows "\<exists>d. g 1 = Some d \<and> d \<noteq> [] \<and> (\<forall>ch \<in> set d. isdecimal ch)"
proof -
  from search_Some[OF assms] obtain t s' where "match_at points t = Some (s', g)" by blast
  then have "m points t Map.empty (\<lambda>s' c'. Some (s', c')) = Some (s', g)"
    by (simp add: match_at_def)
  then obtain s3 c3 where
    "m (Group 1 (Plus (Atom isdecimal))) s3 c3 (\<lambda>s' c'. Some (s', c')) = Some (s', g)"
    unfolding points_def seqs.simps by (blast dest: seq_last)
  from group_plus_atom_sound[OF this] show ?thesis by auto
qed

text \<open>
  A literal matches a text that starts with it, whatever the case; a greedy repetition of
  one character class in front of a continuation that accepts takes the whole run.
\<close>

lemma m_seqs_Cons: "m (seqs (r # rs)) s c k = m r s c (\<lambda>s' c'. m (seqs rs) s' c' k)"
  by (cases rs) (simp_all add: m.simps)

lemma lit_eq:
  "m (lit w) s c k = (if ci_prefix w s then k (drop (length w) s) c else None)"
proof (induction w arbitrary: s)
  case Nil
  then show ?case by (simp add: lit_def m.simps)
next
  case (Cons p w)
  have "m (lit (p # w)) s c k = m (Atom (ci p)) s c (\<lambda>s' c'. m (lit w) s' c' k)"
    unfolding lit_def list.map by (rule m_seqs_Cons)
  then show ?case using Cons.IH by (cases s) (simp_all add: m.simps(1))
qed

lemma search_here: "match_at r t = Some (s', g) \<Longrightarrow> search r t = Some g"
  by (cases t) simp_all

lemma star_atom_greedy:
  "\<forall>ch \<in> set d. p ch \<Longrightarrow> s' = [] \<or> \<not> p (hd s') \<Longrightarrow> k s' c = Some x \<Longrightarrow>
   m (Star (Atom p)) (d @ s') c k = Some x"
proof (induction d)
  case Nil
  then show ?case by (cases s') (simp_all add: m.simps(6) m.simps(1))
next
  case (Cons a d)
  then have "m (Star (Atom p)) (d @ s') c k = Some x" by simp
  with Cons.prems show ?case by (simp add: m_eval)
qed

lemma group_plus_greedy:
  assumes "w \<noteq> []" "\<forall>ch \<in> set w. p ch" "rest = [] \<or> \<not> p (hd rest)"
  shows "m (Group n (Plus (Atom p))) (w @ rest) c (\<lambda>s' c'. Some (s', c')) = Some (rest, c(n \<mapsto> w))"
proof -
  from assms(1) obtain a w' where w: "w = a # w'" by (cases w) auto
  let ?k = "\<lambda>s' c'. Some (s', c'(n \<mapsto> take (length (w @ rest) - length s') (w @ rest)))"
  have "?k rest c = Some (rest, c(n \<mapsto> w))" by simp
  with assms w have "m (Star (Atom p)) (w' @ rest) c ?k = Some (rest, c(n \<mapsto> w))"
    by (intro star_atom_greedy) auto
  with assms w show ?thesis by (simp add: Plus_def m_eval)
qed

section \<open>Totality and order of extraction\<close>

lemma strip_id: "s = [] \<or> (\<not> isspace (hd s) \<and> \<not> isspace (last s)) \<Longrightarrow> strip s = s"
proof (cases s)
  case Nil
  then show ?thesis by (simp add: strip_def)
next
  case (Cons a t)
  assume "s = [] \<or> (\<not> isspace (hd s) \<and> \<not> isspace (last s))"
  with Cons have h: "\<not> isspace a" and l: "\<not> isspace (last s)" by auto
  from Cons h have 1: "dropWhile isspace s = s" by simp
  from Cons obtain ys y where sy: "s = ys @ [y]" by (metis list.distinct(1) rev_exhaust)
  with l have "\<not> isspace y" by simp
  then have "dropWhile isspace (rev s) = rev s" unfolding sy by simp
  with 1 show ?thesis by (simp add: strip_def)
qed

lemma split_none: "sep \<notin> set s \<Longrightarrow> split sep s = [s]"
  by (induction s) auto

lemma isdecimal_not_special:
  "isdecimal ch \<Longrightarrow> \<not> isspace ch \<and> ch \<noteq> CHR ''-'' \<and> ch \<noteq> CHR ''+'' \<and> ch \<noteq> CHR ''_'' \<and> ch \<noteq> NL"
  by (auto simp: isdecimal_def isspace_def NL_def)

lemma py_int_digits:
  assumes "d \<noteq> []" "\<forall>ch \<in> set d. isdecimal ch"
  shows "py_int d =
    (if length d \<le> max_str_digits then Inr (int (digits_value d)) else Inl ValueError)"
proof -
  from assms have "isdecimal (hd d)" "isdecimal (last d)" by auto
  then have hl: "\<not> isspace (hd d)" "\<not> isspace (last d)" "hd d \<noteq> CHR ''-''" "hd d \<noteq> CHR ''+''"
    using isdecimal_not_special by blast+
  then have 1: "strip d = d" by (simp add: strip_id)
  from assms(2) have "CHR ''_'' \<notin> set d" using isdecimal_not_special by blast
  then have 2: "split (CHR ''_'') d = [d]" by (rule split_none)
  show ?thesis using assms hl by (simp add: py_int_def 1 2)
qed

lemma parse_criteria_total: "\<exists>v. parse_criteria text = Inr v"
  using criteria_group[of "text"] by (auto simp: parse_criteria_def split: option.splits)

lemma parse_priority_total: "\<exists>v. parse_priority text = Inr v"
  using priority_group[of "text"] by (auto simp: parse_priority_def split: option.splits)

text \<open>
  \<open>int\<close> is only applied to a non-empty string of decimal digits, so the one exception of
  the story points is that of a string of more than 4300 digits.
\<close>

lemma parse_points_eq:
  "parse_points text =
     (case search points text of
        None \<Rightarrow> Inr None
      | Some g \<Rightarrow>
          if length (the (g 1)) \<le> max_str_digits
          then Inr (Some (int (digits_value (the (g 1))))) else Inl ValueError)"
proof (cases "search points text")
  case None
  then show ?thesis by (simp add: parse_points_def)
next
  case (Some g)
  from points_group[OF Some] obtain d where "g 1 = Some d" "d \<noteq> []" "\<forall>ch \<in> set d. isdecimal ch"
    by blast
  with Some show ?thesis by (simp add: parse_points_def py_int_digits)
qed

lemma parse_points_Inr:
  "(\<exists>v. parse_points text = Inr v) \<longleftrightarrow>
   (\<forall>g d. search points text = Some g \<longrightarrow> g 1 = Some d \<longrightarrow> length d \<le> max_str_digits)"
proof (cases "search points text")
  case None
  then show ?thesis by (simp add: parse_points_eq)
next
  case (Some g)
  from points_group[OF Some] obtain d where "g 1 = Some d" by blast
  with Some show ?thesis by (simp add: parse_points_eq)
qed

lemma parse_points_Inl: "parse_points text = Inl e \<Longrightarrow> e = ValueError"
  by (auto simp: parse_points_eq split: option.splits if_splits)

text \<open>What \<open>_parse_single_story\<close> returns.\<close>

lemma parse_single_story_raises:
  "parse_points text = Inl e \<Longrightarrow> parse_single_story text = Inl e"
  using parse_criteria_total[of "text"] parse_priority_total[of "text"]
  by (auto simp: parse_single_story_def Let_def split: prod.splits)

lemma parse_single_story_returns:
  assumes "parse_points text = Inr sp"
  shows "\<exists>labelled p. parse_criteria text = Inr labelled \<and> parse_priority text = Inr p \<and>
     parse_single_story text =
       Inr (if fst (parse_title text) \<noteq> [] \<and> snd (parse_title text) \<noteq> [] then
              Some \<lparr>title = fst (parse_title text), description = snd (parse_title text),
                acceptance_criteria = labelled @ findall acceptance text, priority = p,
                story_points = sp\<rparr>
            else None)"
proof -
  obtain labelled p where "parse_criteria text = Inr labelled" "parse_priority text = Inr p"
    using parse_criteria_total parse_priority_total by blast
  with assms show ?thesis
    by (auto simp: parse_single_story_def Let_def split: prod.splits)
qed

lemma parse_single_story_Inr:
  "(\<exists>ro. parse_single_story block = Inr ro) \<longleftrightarrow>
   (\<forall>g d. search points block = Some g \<longrightarrow> g 1 = Some d \<longrightarrow> length d \<le> max_str_digits)"
proof -
  have "(\<exists>ro. parse_single_story block = Inr ro) \<longleftrightarrow> (\<exists>v. parse_points block = Inr v)"
  proof (cases "parse_points block")
    case (Inl e)
    then show ?thesis by (simp add: parse_single_story_raises)
  next
    case (Inr sp)
    with parse_single_story_returns[OF Inr] show ?thesis by auto
  qed
  then show ?thesis by (simp only: parse_points_Inr)
qed

lemma parse_single_story_Inl:
  assumes "parse_single_story block = Inl e"
  shows "e = ValueError"
proof (cases "parse_points block")
  case (Inl e')
  with assms have "e' = e" by (simp add: parse_single_story_raises)
  with Inl show ?thesis by (simp add: parse_points_Inl)
next
  case (Inr sp)
  with parse_single_story_returns[OF Inr] assms show ?thesis by auto
qed

lemma parse_single_story_Some:
  assumes "parse_single_story block = Inr (Some r)"
  shows "title r = fst (parse_title block) \<and> description r = snd (parse_title block) \<and>
   title r \<noteq> [] \<and> description r \<noteq> []"
proof (cases "parse_points block")
  case (Inl e)
  with assms show ?thesis by (simp add: parse_single_story_raises)
next
  case (Inr sp)
  with parse_single_story_returns[OF Inr] assms show ?thesis by (auto split: if_splits)
qed

lemma parse_single_story_None:
  assumes "parse_single_story block = Inr ro"
  shows "ro = None \<longleftrightarrow> fst (parse_title block) = [] \<or> snd (parse_title block) = []"
proof (cases "parse_points block")
  case (Inl e)
  with assms show ?thesis by (simp add: parse_single_story_raises)
next
  case (Inr sp)
  with parse_single_story_returns[OF Inr] assms show ?thesis by (auto split: if_splits)
qed


lemma parse_loop_Inr_iff:
  "(\<exists>rs. parse_loop blocks acc = Inr rs) \<longleftrightarrow>
   (\<forall>b \<in> set blocks. \<exists>ro. parse_single_story b = Inr ro)"
  by (induction blocks arbitrary: acc) (auto split: sum.splits option.splits)

lemma parse_loop_Inl:
  "parse_loop blocks acc = Inl e \<Longrightarrow> \<exists>b \<in> set blocks. parse_single_story b = Inl e"
  by (induction blocks arbitrary: acc) (auto split: sum.splits option.splits)

lemma parse_loop_mem:
  "parse_loop blocks acc = Inr rs \<Longrightarrow> r \<in> set rs \<Longrightarrow>
   r \<in> set acc \<or> (\<exists>block \<in> set blocks. parse_single_story block = Inr (Some r))"
proof (induction blocks arbitrary: acc)
  case Nil
  then show ?case by simp
next
  case (Cons b blocks)
  show ?case
  proof (cases "parse_single_story b")
    case (Inl e)
    with Cons.prems show ?thesis by simp
  next
    case (Inr ro)
    show ?thesis
    proof (cases ro)
      case None
      with Inr Cons.prems have "parse_loop blocks acc = Inr rs" by simp
      from Cons.IH[OF this Cons.prems(2)] show ?thesis by auto
    next
      case (Some x)
      with Inr Cons.prems have "parse_loop blocks (acc @ [x]) = Inr rs" by simp
      from Cons.IH[OF this Cons.prems(2)] Inr Some show ?thesis by auto
    qed
  qed
qed

lemma parse_user_stories_mem:
  "parse_user_stories text = Inr rs \<Longrightarrow> r \<in> set rs \<Longrightarrow>
   \<exists>block \<in> set (split_into_stories text). parse_single_story block = Inr (Some r)"
  using parse_loop_mem[of "split_into_stories text" "[]" rs r]
  by (simp add: parse_user_stories_def)




text \<open>A text that makes \<open>int\<close> raise: the label \<open>SP:\<close> and more than 4300 digits.\<close>

lemma points_tail:
  assumes "\<forall>ch \<in> set sp. isspace ch" "w \<noteq> []" "\<forall>ch \<in> set w. isdecimal ch"
    "rest = [] \<or> \<not> isdecimal (hd rest)"
  shows "m (Seq (Star (Atom isspace)) (Group 1 (Plus (Atom isdecimal)))) (sp @ w @ rest) c
           (\<lambda>s' c'. Some (s', c')) = Some (rest, c(1 \<mapsto> w))"
proof -
  from assms(2,3) have "\<not> isspace (hd (w @ rest))"
    by (cases w) (auto dest: isdecimal_not_special)
  moreover have "m (Group 1 (Plus (Atom isdecimal))) (w @ rest) c (\<lambda>s' c'. Some (s', c')) =
      Some (rest, c(1 \<mapsto> w))"
    using assms(2-4) by (rule group_plus_greedy)
  ultimately have "m (Star (Atom isspace)) (sp @ (w @ rest)) c
      (\<lambda>s' c'. m (Group 1 (Plus (Atom isdecimal))) s' c' (\<lambda>s' c'. Some (s', c'))) =
      Some (rest, c(1 \<mapsto> w))"
    using assms(1) by (intro star_atom_greedy) auto
  then show ?thesis by (simp add: m.simps(4))
qed

lemma search_points_SP:
  assumes "d \<noteq> []" "\<forall>ch \<in> set d. isdecimal ch"
  shows "search points (''SP: '' @ d) = Some [1 \<mapsto> d]"
proof -
  have sp: "\<forall>ch \<in> set '' ''. isspace ch" by (simp add: isspace_def)
  have "m (Seq (Star (Atom isspace)) (Group 1 (Plus (Atom isdecimal)))) ('' '' @ d @ []) Map.empty
           (\<lambda>s' c'. Some (s', c')) = Some ([], [1 \<mapsto> d])"
    using sp assms by (rule points_tail) simp
  then have "match_at points (''SP: '' @ d) = Some ([], [1 \<mapsto> d])"
    by (simp add: match_at_def points_def Opt_def m.simps(3) m.simps(4) m.simps(5) lit_eq
        ci_def lower_chr_def char_of_def bit_Suc_0_iff)
  then show ?thesis by (rule search_here)
qed

lemma split_into_stories_SP:
  assumes "d \<noteq> []" "\<forall>ch \<in> set d. isdecimal ch"
  shows "split_into_stories (''SP: '' @ d) = [''SP: '' @ d]"
proof -
  from assms have "isdecimal (last d)" by auto
  then have "\<not> isspace (last (''SP: '' @ d))" using assms(1) isdecimal_not_special by simp
  moreover have "\<not> isspace (hd (''SP: '' @ d))" by (simp add: isspace_def)
  ultimately have 1: "strip (''SP: '' @ d) = ''SP: '' @ d" by (simp add: strip_id)
  have "NL \<notin> set (''SP: '' @ d)" using assms(2) isdecimal_not_special by (auto simp: NL_def)
  then have 2: "split NL (''SP: '' @ d) = [''SP: '' @ d]" by (rule split_none)
  show ?thesis unfolding split_into_stories_def 1 2 by (simp add: 1[simplified])
qed

lemma parse_user_stories_SP:
  assumes "d \<noteq> []" "\<forall>ch \<in> set d. isdecimal ch" "max_str_digits < length d"
  shows "parse_user_stories (''SP: '' @ d) = Inl ValueError"
proof -
  have "parse_points (''SP: '' @ d) = Inl ValueError"
    unfolding parse_points_eq search_points_SP[OF assms(1,2)] using assms(3) by simp
  then have "parse_single_story (''SP: '' @ d) = Inl ValueError"
    by (rule parse_single_story_raises)
  then show ?thesis
    unfolding parse_user_stories_def split_into_stories_SP[OF assms(1,2)] by simp
qed

text \<open>
  Claim C9, as stated, fails: for the one-block text \<open>SP: \<close> followed by 4301 digits \<open>1\<close>,
  \<open>parse_user_stories\<close> returns no list; \<open>int\<close> raises \<open>ValueError\<close> and nothing catches it.
\<close>

theorem C9_counterexample:
  "parse_user_stories (''SP: '' @ replicate 4301 (CHR ''1'')) = Inl ValueError"
  by (rule parse_user_stories_SP) (simp_all add: isdecimal_def max_str_digits_def)

text \<open>
  Claim C9, amended: \<open>parse_user_stories\<close> returns a list of records exactly when no block
  of the text has a story-points match whose digits are more than 4300; the only exception
  it raises is the \<open>ValueError\<close> of \<open>int\<close>. Every record it returns has a non-empty title and
  a non-empty description, and where \<open>_parse_single_story\<close> returns for a block, it returns
  no record exactly when the title or the description is empty.
\<close>

theorem C9_total:
  "((\<exists>rs. parse_user_stories text = Inr rs) \<longleftrightarrow>
      (\<forall>block \<in> set (split_into_stories text). \<forall>g d.
         search points block = Some g \<longrightarrow> g 1 = Some d \<longrightarrow> length d \<le> max_str_digits)) \<and>
   (\<forall>e. parse_user_stories text = Inl e \<longrightarrow> e = ValueError) \<and>
   (\<forall>rs. parse_user_stories text = Inr rs \<longrightarrow>
      (\<forall>r \<in> set rs. title r \<noteq> [] \<and> description r \<noteq> [])) \<and>
   (\<forall>ro. parse_single_story block = Inr ro \<longrightarrow>
      (ro = None \<longleftrightarrow> fst (parse_title block) = [] \<or> snd (parse_title block) = []) \<and>
      (\<forall>r. ro = Some r \<longrightarrow> title r \<noteq> [] \<and> description r \<noteq> []))"
proof -
  have 1: "(\<exists>rs. parse_user_stories text = Inr rs) \<longleftrightarrow>
      (\<forall>block \<in> set (split_into_stories text). \<forall>g d.
         search points block = Some g \<longrightarrow> g 1 = Some d \<longrightarrow> length d \<le> max_str_digits)"
    unfolding parse_user_stories_def parse_loop_Inr_iff parse_single_story_Inr ..
  have 2: "\<forall>e. parse_user_stories text = Inl e \<longrightarrow> e = ValueError"
    unfolding parse_user_stories_def
    by (blast dest: parse_loop_Inl parse_single_story_Inl)
  have 3: "\<forall>rs. parse_user_stories text = Inr rs \<longrightarrow>
      (\<forall>r \<in> set rs. title r \<noteq> [] \<and> description r \<noteq> [])"
  proof (intro allI impI ballI)
    fix rs r
    assume "parse_user_stories text = Inr rs" and r: "r \<in> set rs"
    then obtain block where "parse_single_story block = Inr (Some r)"
      by (blast dest: parse_user_stories_mem)
    then show "title r \<noteq> [] \<and> description r \<noteq> []"
      using parse_single_story_Some[of block r] by blast
  qed
  have 4: "\<forall>ro. parse_single_story block = Inr ro \<longrightarrow>
      (ro = None \<longleftrightarrow> fst (parse_title block) = [] \<or> snd (parse_title block) = []) \<and>
      (\<forall>r. ro = Some r \<longrightarrow> title r \<noteq> [] \<and> description r \<noteq> [])"
    using parse_single_story_None[of block] parse_single_story_Some[of block] by blast
  from 1 2 3 4 show ?thesis by (intro conjI) assumption+
qed


lemma two_blocks_example:
  shows "split_into_stories ''a\<newline>\<newline>b'' = [''a'', ''b'']"
    and "search points ''a'' = None"
    and "search points ''b'' = None"
    and "parse_single_story ''a'' =
     Inr (Some \<lparr>title = ''a'', description = ''a'', acceptance_criteria = [],
       priority = ''Medium'', story_points = None\<rparr>)"
    and "parse_single_story ''b'' =
     Inr (Some \<lparr>title = ''b'', description = ''b'', acceptance_criteria = [],
       priority = ''Medium'', story_points = None\<rparr>)"
    and "parse_user_stories ''a\<newline>\<newline>b'' =
     Inr [\<lparr>title = ''a'', description = ''a'', acceptance_criteria = [],
       priority = ''Medium'', story_points = None\<rparr>,
          \<lparr>title = ''b'', description = ''b'', acceptance_criteria = [],
       priority = ''Medium'', story_points = None\<rparr>]"
  by (simp_all add: chr_eval re_eval parse_eval)


theorem C9_total_witness:
  "search points ''a'' = None \<and> search points ''b'' = None \<and>
   parse_user_stories ''a\<newline>\<newline>b'' =
     Inr [\<lparr>title = ''a'', description = ''a'', acceptance_criteria = [],
       priority = ''Medium'', story_points = None\<rparr>,
          \<lparr>title = ''b'', description = ''b'', acceptance_criteria = [],
       priority = ''Medium'', story_points = None\<rparr>] \<and>
   title \<lparr>title = ''a'', description = ''a'', acceptance_criteria = [],
       priority = ''Medium'', story_points = None\<rparr> \<noteq> [] \<and>
   description \<lparr>title = ''b'', description = ''b'', acceptance_criteria = [],
       priority = ''Medium'', story_points = None\<rparr> \<noteq> [] \<and>
   parse_single_story ''a'' =
     Inr (Some \<lparr>title = ''a'', description = ''a'', acceptance_criteria = [],
       priority = ''Medium'', story_points = None\<rparr>) \<and>
   fst (parse_title ''a'') \<noteq> [] \<and> snd (parse_title ''a'') \<noteq> []"
proof -
  note c9 = C9_total[of "''a\<newline>\<newline>b''" "''a''"]
  note sa = two_blocks_example(2) and sb = two_blocks_example(3)
    and pa = two_blocks_example(4) and ev = two_blocks_example(6)
  have "\<forall>block \<in> set (split_into_stories ''a\<newline>\<newline>b''). \<forall>g d.
      search points block = Some g \<longrightarrow> g 1 = Some d \<longrightarrow> length d \<le> max_str_digits"
    by (simp only: two_blocks_example(1) list.set ball_simps sa sb option.distinct simp_thms)
  from c9[THEN conjunct1, THEN iffD2, OF this]
  obtain rs where rs: "parse_user_stories ''a\<newline>\<newline>b'' = Inr rs" ..
  note ne = c9[THEN conjunct2, THEN conjunct2, THEN conjunct1, THEN spec, THEN mp, OF rs]
  from rs ev have "rs = [\<lparr>title = ''a'', description = ''a'', acceptance_criteria = [],
       priority = ''Medium'', story_points = None\<rparr>,
          \<lparr>title = ''b'', description = ''b'', acceptance_criteria = [],
       priority = ''Medium'', story_points = None\<rparr>]" by (simp only: sum.inject)
  with ne have 1: "title \<lparr>title = ''a'', description = ''a'', acceptance_criteria = [],
       priority = ''Medium'', story_points = None\<rparr> \<noteq> []"
    and 2: "description \<lparr>title = ''b'', description = ''b'', acceptance_criteria = [],
       priority = ''Medium'', story_points = None\<rparr> \<noteq> []"
    by (simp_all only: list.set ball_simps insert_iff simp_thms)
  note d = c9[THEN conjunct2, THEN conjunct2, THEN conjunct2, THEN spec, THEN mp, OF pa,
      THEN conjunct1]
  then have 3: "fst (parse_title ''a'') \<noteq> []" and 4: "snd (parse_title ''a'') \<noteq> []"
    by simp_all
  from sa sb ev 1 2 pa 3 4 show ?thesis by (intro conjI) assumption+
qed

section \<open>Titles\<close>

lemma split_nonempty: "split sep s \<noteq> []"
  by (induction s) (auto split: list.splits)

text \<open>
  Claim C3, amended: every record returned comes from a block of the text. If the block
  has no Gherkin match, the title is the first line of the block when that line has at most
  100 characters, and otherwise its first 100 characters followed by three dots, 103
  characters in all. If the block has a Gherkin match, the title is \<open>User Story: \<close>
  followed by the whole action, of any length.
\<close>

theorem C3_title:
  assumes "parse_user_stories text = Inr rs" and "r \<in> set rs"
  shows "\<exists>block l rest. block \<in> set (split_into_stories text) \<and>
     parse_single_story block = Inr (Some r) \<and> split NL block = l # rest \<and>
     (search gherkin block = None \<longrightarrow>
        title r = (if 100 < length l then take 100 l @ ''...'' else l) \<and>
        length (title r) \<le> 103) \<and>
     (\<forall>g. search gherkin block = Some g \<longrightarrow> title r = ''User Story: '' @ fmt (g 2))"
proof -
  from assms obtain block where b: "block \<in> set (split_into_stories text)"
    and p: "parse_single_story block = Inr (Some r)"
    by (blast dest: parse_user_stories_mem)
  obtain l rest where l: "split NL block = l # rest"
    using split_nonempty[of NL block] by (cases "split NL block") auto
  from p have t: "title r = fst (parse_title block)"
    by (simp add: parse_single_story_Some)
  have 1: "search gherkin block = None \<longrightarrow>
        title r = (if 100 < length l then take 100 l @ ''...'' else l) \<and> length (title r) \<le> 103"
    by (auto simp: t parse_title_def l)
  have 2: "\<forall>g. search gherkin block = Some g \<longrightarrow> title r = ''User Story: '' @ fmt (g 2)"
    by (auto simp: t parse_title_def)
  from b p l 1 2 show ?thesis
    by (intro exI[of _ block] exI[of _ l] exI[of _ rest] conjI) assumption+
qed

lemma long_line_example:
  "parse_user_stories ''xxxxxxxxxxxxxxxxxxxxxxxxxxxxxxxxxxxxxxxxxxxxxxxxxxxxxxxxxxxxxxxxxxxxxxxxxxxxxxxxxxxxxxxxxxxxxxxxxxxxx'' =
     Inr [\<lparr>title = ''xxxxxxxxxxxxxxxxxxxxxxxxxxxxxxxxxxxxxxxxxxxxxxxxxxxxxxxxxxxxxxxxxxxxxxxxxxxxxxxxxxxxxxxxxxxxxxxxxxxx...'',
       description = ''xxxxxxxxxxxxxxxxxxxxxxxxxxxxxxxxxxxxxxxxxxxxxxxxxxxxxxxxxxxxxxxxxxxxxxxxxxxxxxxxxxxxxxxxxxxxxxxxxxxxx'',
       acceptance_criteria = [], priority = ''Medium'', story_points = None\<rparr>]"
  by (simp add: chr_eval re_eval parse_eval)

lemma long_action_example:
  "parse_user_stories ''As a u, I want xxxxxxxxxxxxxxxxxxxxxxxxxxxxxxxxxxxxxxxxxxxxxxxxxxxxxxxxxxxxxxxxxxxxxxxxxxxxxxxxxxxxxxxxx so that v'' =
     Inr [\<lparr>title = ''User Story: xxxxxxxxxxxxxxxxxxxxxxxxxxxxxxxxxxxxxxxxxxxxxxxxxxxxxxxxxxxxxxxxxxxxxxxxxxxxxxxxxxxxxxxxx'',
       description = ''As a u, I want xxxxxxxxxxxxxxxxxxxxxxxxxxxxxxxxxxxxxxxxxxxxxxxxxxxxxxxxxxxxxxxxxxxxxxxxxxxxxxxxxxxxxxxxx so that v'',
       acceptance_criteria = [], priority = ''Medium'', story_points = None\<rparr>]"
  by (simp add: chr_eval re_eval parse_eval)

text \<open>
  Claim C3, as stated, fails: a line of 101 characters gets a title of 103 characters, and
  a Gherkin story with an action of 89 characters gets a title of 101 characters.
\<close>

theorem C3_counterexample:
  "map_sum id (map (\<lambda>r. length (title r) \<le> 100))
     (parse_user_stories ''xxxxxxxxxxxxxxxxxxxxxxxxxxxxxxxxxxxxxxxxxxxxxxxxxxxxxxxxxxxxxxxxxxxxxxxxxxxxxxxxxxxxxxxxxxxxxxxxxxxxx'') = Inr [False] \<and>
   map_sum id (map (\<lambda>r. length (title r) \<le> 100))
     (parse_user_stories ''As a u, I want xxxxxxxxxxxxxxxxxxxxxxxxxxxxxxxxxxxxxxxxxxxxxxxxxxxxxxxxxxxxxxxxxxxxxxxxxxxxxxxxxxxxxxxxx so that v'') = Inr [False]"
  by (simp add: long_line_example long_action_example)

theorem C3_title_witness:
  "parse_user_stories ''xxxxxxxxxxxxxxxxxxxxxxxxxxxxxxxxxxxxxxxxxxxxxxxxxxxxxxxxxxxxxxxxxxxxxxxxxxxxxxxxxxxxxxxxxxxxxxxxxxxxx'' = Inr [\<lparr>title = ''xxxxxxxxxxxxxxxxxxxxxxxxxxxxxxxxxxxxxxxxxxxxxxxxxxxxxxxxxxxxxxxxxxxxxxxxxxxxxxxxxxxxxxxxxxxxxxxxxxxx...'',
       description = ''xxxxxxxxxxxxxxxxxxxxxxxxxxxxxxxxxxxxxxxxxxxxxxxxxxxxxxxxxxxxxxxxxxxxxxxxxxxxxxxxxxxxxxxxxxxxxxxxxxxxx'',
       acceptance_criteria = [], priority = ''Medium'', story_points = None\<rparr>] \<and>
   \<lparr>title = ''xxxxxxxxxxxxxxxxxxxxxxxxxxxxxxxxxxxxxxxxxxxxxxxxxxxxxxxxxxxxxxxxxxxxxxxxxxxxxxxxxxxxxxxxxxxxxxxxxxxx...'',
       description = ''xxxxxxxxxxxxxxxxxxxxxxxxxxxxxxxxxxxxxxxxxxxxxxxxxxxxxxxxxxxxxxxxxxxxxxxxxxxxxxxxxxxxxxxxxxxxxxxxxxxxx'',
       acceptance_criteria = [], priority = ''Medium'', story_points = None\<rparr> \<in> set [\<lparr>title = ''xxxxxxxxxxxxxxxxxxxxxxxxxxxxxxxxxxxxxxxxxxxxxxxxxxxxxxxxxxxxxxxxxxxxxxxxxxxxxxxxxxxxxxxxxxxxxxxxxxxx...'',
       description = ''xxxxxxxxxxxxxxxxxxxxxxxxxxxxxxxxxxxxxxxxxxxxxxxxxxxxxxxxxxxxxxxxxxxxxxxxxxxxxxxxxxxxxxxxxxxxxxxxxxxxx'',
       acceptance_criteria = [], priority = ''Medium'', story_points = None\<rparr>] \<and>
   (\<exists>block l rest. block \<in> set (split_into_stories ''xxxxxxxxxxxxxxxxxxxxxxxxxxxxxxxxxxxxxxxxxxxxxxxxxxxxxxxxxxxxxxxxxxxxxxxxxxxxxxxxxxxxxxxxxxxxxxxxxxxxx'') \<and>
      parse_single_story block = Inr (Some \<lparr>title = ''xxxxxxxxxxxxxxxxxxxxxxxxxxxxxxxxxxxxxxxxxxxxxxxxxxxxxxxxxxxxxxxxxxxxxxxxxxxxxxxxxxxxxxxxxxxxxxxxxxxx...'',
       description = ''xxxxxxxxxxxxxxxxxxxxxxxxxxxxxxxxxxxxxxxxxxxxxxxxxxxxxxxxxxxxxxxxxxxxxxxxxxxxxxxxxxxxxxxxxxxxxxxxxxxxx'',
       acceptance_criteria = [], priority = ''Medium'', story_points = None\<rparr>) \<and>
      split NL block = l # rest \<and>
      (search gherkin block = None \<longrightarrow>
         title \<lparr>title = ''xxxxxxxxxxxxxxxxxxxxxxxxxxxxxxxxxxxxxxxxxxxxxxxxxxxxxxxxxxxxxxxxxxxxxxxxxxxxxxxxxxxxxxxxxxxxxxxxxxxx...'',
       description = ''xxxxxxxxxxxxxxxxxxxxxxxxxxxxxxxxxxxxxxxxxxxxxxxxxxxxxxxxxxxxxxxxxxxxxxxxxxxxxxxxxxxxxxxxxxxxxxxxxxxxx'',
       acceptance_criteria = [], priority = ''Medium'', story_points = None\<rparr> = (if 100 < length l then take 100 l @ ''...'' else l) \<and>
         length (title \<lparr>title = ''xxxxxxxxxxxxxxxxxxxxxxxxxxxxxxxxxxxxxxxxxxxxxxxxxxxxxxxxxxxxxxxxxxxxxxxxxxxxxxxxxxxxxxxxxxxxxxxxxxxx...'',
       description = ''xxxxxxxxxxxxxxxxxxxxxxxxxxxxxxxxxxxxxxxxxxxxxxxxxxxxxxxxxxxxxxxxxxxxxxxxxxxxxxxxxxxxxxxxxxxxxxxxxxxxx'',
       acceptance_criteria = [], priority = ''Medium'', story_points = None\<rparr>) \<le> 103) \<and>
      (\<forall>g. search gherkin block = Some g \<longrightarrow>
         title \<lparr>title = ''xxxxxxxxxxxxxxxxxxxxxxxxxxxxxxxxxxxxxxxxxxxxxxxxxxxxxxxxxxxxxxxxxxxxxxxxxxxxxxxxxxxxxxxxxxxxxxxxxxxx...'',
       description = ''xxxxxxxxxxxxxxxxxxxxxxxxxxxxxxxxxxxxxxxxxxxxxxxxxxxxxxxxxxxxxxxxxxxxxxxxxxxxxxxxxxxxxxxxxxxxxxxxxxxxx'',
       acceptance_criteria = [], priority = ''Medium'', story_points = None\<rparr> = ''User Story: '' @ fmt (g 2)))"
proof -
  have mem: "\<lparr>title = ''xxxxxxxxxxxxxxxxxxxxxxxxxxxxxxxxxxxxxxxxxxxxxxxxxxxxxxxxxxxxxxxxxxxxxxxxxxxxxxxxxxxxxxxxxxxxxxxxxxxx...'',
       description = ''xxxxxxxxxxxxxxxxxxxxxxxxxxxxxxxxxxxxxxxxxxxxxxxxxxxxxxxxxxxxxxxxxxxxxxxxxxxxxxxxxxxxxxxxxxxxxxxxxxxxx'',
       acceptance_criteria = [], priority = ''Medium'', story_points = None\<rparr> \<in> set [\<lparr>title = ''xxxxxxxxxxxxxxxxxxxxxxxxxxxxxxxxxxxxxxxxxxxxxxxxxxxxxxxxxxxxxxxxxxxxxxxxxxxxxxxxxxxxxxxxxxxxxxxxxxxx...'',
       description = ''xxxxxxxxxxxxxxxxxxxxxxxxxxxxxxxxxxxxxxxxxxxxxxxxxxxxxxxxxxxxxxxxxxxxxxxxxxxxxxxxxxxxxxxxxxxxxxxxxxxxx'',
       acceptance_criteria = [], priority = ''Medium'', story_points = None\<rparr>]"
    by (rule list.set_intros(1))
  from long_line_example mem C3_title[OF long_line_example mem] show ?thesis
    by (intro conjI) assumption+
qed

end
